theory Spec2Isabelle
  imports Main "HOL-Library.Word"
begin

unbundle bit_operations_syntax

section \<open>Data model of knob.c\<close>

text \<open>
  The C types are modelled by machine words: \<open>signed char\<close> is an \<open>8 word\<close> read through
  \<open>sint\<close>, \<open>uint8_t\<close> an \<open>8 word\<close>, \<open>uint32_t\<close> and the promoted \<open>int\<close> a \<open>32 word\<close>.
  Word subtraction and addition wrap around, which is what the conversion of the promoted
  \<open>int\<close> result back to \<open>signed char\<close> does on the target compiler.
\<close>

type_synonym schar = "8 word"
type_synonym u8 = "8 word"
type_synonym u32 = "32 word"

text \<open>The anonymous enum of blink patterns (lines 45-50).\<close>

definition BLINK_NOT_MOUNTED :: u32 where
  "BLINK_NOT_MOUNTED = 250"

definition BLINK_MOUNTED :: u32 where
  "BLINK_MOUNTED = 1000"

definition BLINK_SUSPENDED :: u32 where
  "BLINK_SUSPENDED = 2500"

text \<open>The encoder pin numbers (lines 57-60).\<close>

definition ENC1 :: nat where
  "ENC1 = 5"

definition ENC2 :: nat where
  "ENC2 = 2"

definition ENC3 :: nat where
  "ENC3 = 4"

definition ENC4 :: nat where
  "ENC4 = 3"

text \<open>The lookup table \<open>gray\<close> (line 62).\<close>

definition gray :: "u8 list" where
  "gray = [10, 11, 9, 8, 13, 12, 14, 15, 5, 4, 6, 7, 2, 3, 1, 0]"

text \<open>
  The globals of the translation unit: \<open>blink_interval_ms\<close>, \<open>prev\<close>, \<open>curr\<close>, \<open>diff\<close>,
  \<open>clear_flag\<close>, and the function-local static \<open>start_ms\<close> of \<open>hid_task\<close>.
\<close>

record knob_state =
  blink_interval_ms :: u32
  prev :: schar
  curr :: schar
  diff :: schar
  clear_flag :: bool
  start_ms :: u32

text \<open>
  The names that \<open>tusb.h\<close> and \<open>usb_descriptors.h\<close> define and \<open>hid_task\<close> uses. Their
  values are not part of knob.c, so they are parameters of the model.
\<close>

record tusb_defs =
  REPORT_ID_KEYBOARD :: u8
  HID_KEY_BACKSLASH :: u8
  HID_KEY_BRACKET_RIGHT :: u8

text \<open>
  What one call of \<open>hid_task\<close> reads from its environment: the millisecond clock, the two
  queries of the USB stack, and the levels of the GPIO bank (bit \<open>n\<close> is the level of pin
  \<open>n\<close>).
\<close>

record hid_env =
  board_millis :: u32
  tud_suspended :: bool
  tud_hid_ready :: bool
  gpio_in :: u32

text \<open>
  What a call does to the USB stack: \<open>tud_remote_wakeup()\<close>, or
  \<open>tud_hid_keyboard_report(report_id, modifier, keycode)\<close> where the keycode pointer is
  either \<open>NULL\<close> (\<open>None\<close>) or a six-byte array.
\<close>

datatype usb_call =
  RemoteWakeup
  | KeyboardReport u8 u8 "u8 list option"

text \<open>The bus events on which the USB stack invokes the four device callbacks.\<close>

datatype bus_event = Mounted | Unmounted | Suspended bool | Resumed

section \<open>The functions of knob.c\<close>

definition gpio_get :: "u32 \<Rightarrow> nat \<Rightarrow> bool" where
  "gpio_get pins n = bit pins n"

text \<open>
  The index expression
  \<open>gpio_get(ENC1) | (gpio_get(ENC2) << 1) | (gpio_get(ENC3) << 2) | (gpio_get(ENC4) << 3)\<close>
  of lines 83 and 174, computed in \<open>int\<close>.
\<close>

definition raw_code :: "u32 \<Rightarrow> u32" where
  "raw_code pins =
     of_bool (gpio_get pins ENC1) OR push_bit 1 (of_bool (gpio_get pins ENC2))
       OR push_bit 2 (of_bool (gpio_get pins ENC3)) OR push_bit 3 (of_bool (gpio_get pins ENC4))"

text \<open>The table read \<open>gray[...]\<close> of lines 83 and 174.\<close>

definition read_gray :: "u32 \<Rightarrow> schar" where
  "read_gray pins = gray ! unat (raw_code pins)"

text \<open>\<open>gray_diff\<close> (lines 221-235). The comparisons are signed, hence through \<open>sint\<close>.\<close>

definition gray_diff :: "schar \<Rightarrow> schar \<Rightarrow> schar" where
  "gray_diff p c =
     (let d = c - p in
      if d = 0 \<or> d = - 8 \<or> d = 8 then 0
      else if sint d > 8 then d - 16
      else if sint d < - 8 then d + 16
      else d)"

text \<open>The device callbacks (lines 100-124).\<close>

definition tud_mount_cb :: "knob_state \<Rightarrow> knob_state" where
  "tud_mount_cb s = s\<lparr>blink_interval_ms := BLINK_MOUNTED\<rparr>"

definition tud_umount_cb :: "knob_state \<Rightarrow> knob_state" where
  "tud_umount_cb s = s\<lparr>blink_interval_ms := BLINK_NOT_MOUNTED\<rparr>"

definition tud_suspend_cb :: "bool \<Rightarrow> knob_state \<Rightarrow> knob_state" where
  "tud_suspend_cb remote_wakeup_en s = s\<lparr>blink_interval_ms := BLINK_SUSPENDED\<rparr>"

definition tud_resume_cb :: "knob_state \<Rightarrow> knob_state" where
  "tud_resume_cb s = s\<lparr>blink_interval_ms := BLINK_MOUNTED\<rparr>"

text \<open>\<open>hid_task\<close> (lines 130-194): the new globals and the calls made, in order.\<close>

definition interval_ms :: u32 where
  "interval_ms = 10"

definition hid_task :: "tusb_defs \<Rightarrow> hid_env \<Rightarrow> knob_state \<Rightarrow> knob_state \<times> usb_call list" where
  "hid_task k e s =
     (if board_millis e - start_ms s < interval_ms then (s, [])
      else
        let s1 = s\<lparr>start_ms := start_ms s + interval_ms\<rparr>;
            wake = (if tud_suspended e then [RemoteWakeup] else [])
        in
        if tud_hid_ready e then
          if clear_flag s1 then
            (s1\<lparr>clear_flag := False\<rparr>, wake @ [KeyboardReport (REPORT_ID_KEYBOARD k) 0 None])
          else
            let c = read_gray (gpio_in e);
                d = gray_diff (prev s1) c;
                s2 = s1\<lparr>curr := c, diff := d\<rparr>
            in
            if d \<noteq> 0 then
              let keycode =
                    (if sint d > 0 then [HID_KEY_BACKSLASH k, 0, 0, 0, 0, 0]
                     else if sint d < 0 then [HID_KEY_BRACKET_RIGHT k, 0, 0, 0, 0, 0]
                     else [0, 0, 0, 0, 0, 0])
              in (s2\<lparr>clear_flag := True, prev := c\<rparr>,
                  wake @ [KeyboardReport (REPORT_ID_KEYBOARD k) 0 (Some keycode)])
            else (s2\<lparr>prev := c\<rparr>, wake)
        else (s1, wake))"

text \<open>
  \<open>main\<close> (lines 69-93). The globals start zero-initialised (\<open>blink_interval_ms\<close> with its
  initialiser) and \<open>prev\<close> takes one sample before the loop.
\<close>

definition main_init :: "u32 \<Rightarrow> knob_state" where
  "main_init pins =
     \<lparr>blink_interval_ms = BLINK_NOT_MOUNTED, prev = read_gray pins, curr = 0, diff = 0,
      clear_flag = False, start_ms = 0\<rparr>"

text \<open>
  \<open>tud_task()\<close> belongs to the USB stack; what it does to the globals of knob.c is to invoke
  the device callbacks for the bus events it has seen, in order.
\<close>

fun tud_callback :: "bus_event \<Rightarrow> knob_state \<Rightarrow> knob_state" where
  "tud_callback Mounted s = tud_mount_cb s"
| "tud_callback Unmounted s = tud_umount_cb s"
| "tud_callback (Suspended en) s = tud_suspend_cb en s"
| "tud_callback Resumed s = tud_resume_cb s"

fun tud_task :: "bus_event list \<Rightarrow> knob_state \<Rightarrow> knob_state" where
  "tud_task [] s = s"
| "tud_task (b # bs) s = tud_task bs (tud_callback b s)"

text \<open>
  The \<open>while (true)\<close> loop of \<open>main\<close> never exits; the model runs it over a finite prefix of
  its input, one element per iteration: the bus events \<open>tud_task\<close> handles, then the
  environment \<open>hid_task\<close> reads.
\<close>

fun main_loop ::
  "tusb_defs \<Rightarrow> (bus_event list \<times> hid_env) list \<Rightarrow> knob_state \<Rightarrow> knob_state \<times> usb_call list"
where
  "main_loop k [] s = (s, [])"
| "main_loop k (it # its) s =
     (let r1 = hid_task k (snd it) (tud_task (fst it) s);
          r2 = main_loop k its (fst r1)
      in (fst r2, snd r1 @ snd r2))"

section \<open>Vocabulary of the properties\<close>

text \<open>The keyboard reports among the calls made.\<close>

fun is_keyboard_report :: "usb_call \<Rightarrow> bool" where
  "is_keyboard_report (KeyboardReport i m kc) = True"
| "is_keyboard_report RemoteWakeup = False"

definition keyboard_reports :: "usb_call list \<Rightarrow> usb_call list" where
  "keyboard_reports cs = filter is_keyboard_report cs"

text \<open>
  A call of \<open>hid_task\<close> is a tick when the 10 ms gate of lines 136-138 lets it through; the
  tick is transport-ready when \<open>tud_hid_ready()\<close> then answers true.
\<close>

definition is_tick :: "hid_env \<Rightarrow> knob_state \<Rightarrow> bool" where
  "is_tick e s = (interval_ms \<le> board_millis e - start_ms s)"

definition ready_tick :: "hid_env \<Rightarrow> knob_state \<Rightarrow> bool" where
  "ready_tick e s = (is_tick e s \<and> tud_hid_ready e)"

text \<open>
  The step classifier in the words of the specification: the raw difference, folded by 16
  when its magnitude exceeds 8, and 0 for a raw difference of 0, 8 or -8.
\<close>

definition classify_spec :: "int \<Rightarrow> int \<Rightarrow> int" where
  "classify_spec p c =
     (let r = c - p in
      if r = 0 \<or> r = 8 \<or> r = - 8 then 0
      else if r > 8 then r - 16
      else if r < - 8 then r + 16
      else r)"

text \<open>
  The step-decoder state: previous position, current position, delta and the
  pending-release flag. The state machine is IDLE when the flag is clear.
\<close>

definition decoder_state :: "knob_state \<Rightarrow> schar \<times> schar \<times> schar \<times> bool" where
  "decoder_state s = (prev s, curr s, diff s, clear_flag s)"

text \<open>
  The two keyboard reports \<open>hid_task\<close> sends: a key press carrying one key code in
  \<open>keycode[0]\<close> (line 187), and the all-keys-released report with a \<open>NULL\<close> keycode
  (line 169).
\<close>

definition press :: "tusb_defs \<Rightarrow> u8 \<Rightarrow> usb_call" where
  "press k key = KeyboardReport (REPORT_ID_KEYBOARD k) 0 (Some [key, 0, 0, 0, 0, 0])"

definition release :: "tusb_defs \<Rightarrow> usb_call" where
  "release k = KeyboardReport (REPORT_ID_KEYBOARD k) 0 None"

text \<open>A stretch of loop iterations none of which is a transport-ready tick.\<close>

fun quiet_run ::
  "tusb_defs \<Rightarrow> (bus_event list \<times> hid_env) list \<Rightarrow> knob_state \<Rightarrow> bool"
where
  "quiet_run k [] s = True"
| "quiet_run k (it # its) s =
     (if ready_tick (snd it) (tud_task (fst it) s) then False
      else quiet_run k its (fst (hid_task k (snd it) (tud_task (fst it) s))))"

section \<open>The step classifier\<close>

lemma sint_schar_sub:
  fixes a b :: schar
  assumes "- 128 \<le> sint a - sint b" "sint a - sint b < 128"
  shows "sint (a - b) = sint a - sint b"
proof -
  have "sint (a - b) = signed_take_bit 7 (sint a - sint b)"
    by (simp add: sint_word_ariths)
  also have "\<dots> = sint a - sint b"
    using assms by (simp add: signed_take_bit_int_eq_self)
  finally show ?thesis .
qed

lemma sint_schar_add:
  fixes a b :: schar
  assumes "- 128 \<le> sint a + sint b" "sint a + sint b < 128"
  shows "sint (a + b) = sint a + sint b"
proof -
  have "sint (a + b) = signed_take_bit 7 (sint a + sint b)"
    by (simp add: sint_word_ariths)
  also have "\<dots> = sint a + sint b"
    using assms by (simp add: signed_take_bit_int_eq_self)
  finally show ?thesis .
qed

lemma schar_eq_iff_sint:
  fixes a b :: schar
  shows "a = b \<longleftrightarrow> sint a = sint b"
  by (auto simp: word_eq_iff_signed)

lemma gray_diff_refines:
  assumes "0 \<le> sint p" "sint p \<le> 15" "0 \<le> sint c" "sint c \<le> 15"
  shows "sint (gray_diff p c) = classify_spec (sint p) (sint c)"
proof -
  define r where "r = sint c - sint p"
  have r: "- 15 \<le> r" "r \<le> 15"
    using assms by (simp_all add: r_def)
  have d: "sint (c - p) = r"
    unfolding r_def using assms by (intro sint_schar_sub) simp_all
  have e0: "c - p = 0 \<longleftrightarrow> r = 0"
    using d by (simp add: schar_eq_iff_sint)
  have e8: "c - p = 8 \<longleftrightarrow> r = 8"
    using d by (simp add: schar_eq_iff_sint)
  have em8: "c - p = - 8 \<longleftrightarrow> r = - 8"
    using d by (simp add: schar_eq_iff_sint)
  have sub: "sint (c - p - 16) = r - 16"
    using sint_schar_sub [of "c - p" 16] r d by simp
  have add: "sint (c - p + 16) = r + 16"
    using sint_schar_add [of "c - p" 16] r d by simp
  show ?thesis
    using d e0 e8 em8 sub add
    by (simp add: gray_diff_def classify_spec_def Let_def r_def [symmetric])
qed

lemma sint_schar_of_int:
  assumes "- 128 \<le> x" "x < 128"
  shows "sint (word_of_int x :: schar) = x"
  using assms by (simp add: signed_of_int signed_take_bit_int_eq_self)

lemma sint_position: "sint (word_of_int (q mod 16) :: schar) = q mod 16"
proof -
  have "0 \<le> q mod 16" "q mod 16 < 16" by simp_all
  then show ?thesis by (intro sint_schar_of_int) linarith+
qed

lemma gray_diff_ring:
  "sint (gray_diff (word_of_int (q mod 16)) (word_of_int (r mod 16)))
     = classify_spec (q mod 16) (r mod 16)"
proof -
  have q: "sint (word_of_int (q mod 16) :: schar) = q mod 16"
    and r: "sint (word_of_int (r mod 16) :: schar) = r mod 16"
    by (rule sint_position)+
  have "0 \<le> sint (word_of_int (q mod 16) :: schar)"
    "sint (word_of_int (q mod 16) :: schar) \<le> 15"
    "0 \<le> sint (word_of_int (r mod 16) :: schar)"
    "sint (word_of_int (r mod 16) :: schar) \<le> 15"
    unfolding q r by simp_all
  then have "sint (gray_diff (word_of_int (q mod 16)) (word_of_int (r mod 16)))
     = classify_spec (sint (word_of_int (q mod 16) :: schar))
         (sint (word_of_int (r mod 16) :: schar))"
    by (rule gray_diff_refines)
  then show ?thesis
    unfolding q r .
qed

lemma classify_spec_cw: "classify_spec (q mod 16) ((q + 1) mod 16) = 1"
proof -
  define m where "m = q mod 16"
  have m: "0 \<le> m" "m < 16"
    by (simp_all add: m_def)
  have "(q + 1) mod 16 = (m + 1) mod 16"
    unfolding m_def by (simp add: mod_add_left_eq)
  also have "\<dots> = (if m = 15 then 0 else m + 1)"
    using m by simp
  finally have n: "(q + 1) mod 16 = (if m = 15 then 0 else m + 1)" .
  have "classify_spec m (if m = 15 then 0 else m + 1) = 1"
    by (simp add: classify_spec_def)
  then show ?thesis
    by (simp only: n m_def)
qed

lemma classify_spec_ccw: "classify_spec (q mod 16) ((q - 1) mod 16) = - 1"
proof -
  define m where "m = q mod 16"
  have m: "0 \<le> m" "m < 16"
    by (simp_all add: m_def)
  have "(q - 1) mod 16 = (m - 1) mod 16"
    unfolding m_def by (simp add: mod_diff_left_eq)
  also have "\<dots> = (if m = 0 then 15 else m - 1)"
    using m by simp
  finally have n: "(q - 1) mod 16 = (if m = 0 then 15 else m - 1)" .
  have "classify_spec m (if m = 0 then 15 else m - 1) = - 1"
    by (simp add: classify_spec_def)
  then show ?thesis
    by (simp only: n m_def)
qed

lemma gray_diff_cw:
  "sint (gray_diff (word_of_int (q mod 16)) (word_of_int ((q + 1) mod 16))) = 1"
  by (simp only: gray_diff_ring classify_spec_cw)

lemma gray_diff_ccw:
  "sint (gray_diff (word_of_int (q mod 16)) (word_of_int ((q - 1) mod 16))) = - 1"
  by (simp only: gray_diff_ring classify_spec_ccw)

lemma classify_spec_range:
  assumes "0 \<le> p" "p \<le> 15" "0 \<le> c" "c \<le> 15"
  shows "- 8 < classify_spec p c \<and> classify_spec p c \<le> 8"
  using assms by (simp add: classify_spec_def Let_def)

lemma classify_spec_antisym: "classify_spec a b = - classify_spec b a"
  by (simp add: classify_spec_def Let_def)

lemma gray_diff_same: "gray_diff p p = 0"
  by (simp add: gray_diff_def)

text \<open>
  Claim C3. On position indices in [0,15] the classifier \<open>gray_diff\<close> computes the raw
  difference \<open>curr - prev\<close>, returns 0 for a raw difference of 0, 8 or -8, subtracts 16 from
  a raw difference above 8 and adds 16 to one below -8 (this is \<open>classify_spec\<close>), and its
  result lies in the range (-8, 8]. Moreover \<open>gray_diff p p = 0\<close> for every \<open>p\<close>, and
  \<open>gray_diff 0 8 = 0\<close> and \<open>gray_diff 8 0 = 0\<close>.
\<close>

theorem gray_diff_classifier:
  "0 \<le> sint p \<Longrightarrow> sint p \<le> 15 \<Longrightarrow> 0 \<le> sint c \<Longrightarrow> sint c \<le> 15 \<Longrightarrow>
     sint (gray_diff p c) = classify_spec (sint p) (sint c)
     \<and> - 8 < sint (gray_diff p c) \<and> sint (gray_diff p c) \<le> 8
     \<and> gray_diff p p = 0 \<and> gray_diff 0 8 = 0 \<and> gray_diff 8 0 = 0"
  using classify_spec_range [of "sint p" "sint c"]
  by (simp add: gray_diff_refines gray_diff_same) (simp add: gray_diff_def)

theorem gray_diff_classifier_witness:
  "sint (gray_diff 3 14) = - 5 \<and> sint (gray_diff 14 3) = 5 \<and> sint (gray_diff 9 1) = 0"
  using gray_diff_classifier [of 3 14] gray_diff_classifier [of 14 3]
    gray_diff_classifier [of 9 1]
  by (simp add: classify_spec_def)

text \<open>
  Claim C4. For every position index \<open>p\<close> in [0,15], \<open>gray_diff\<close> from \<open>p\<close> to
  \<open>(p + 1) mod 16\<close> is +1 and from \<open>p\<close> to \<open>(p - 1) mod 16\<close> is -1, also across the 15/0
  wrap-around.
\<close>

theorem gray_diff_adjacent:
  "0 \<le> p \<Longrightarrow> p \<le> 15 \<Longrightarrow>
     sint (gray_diff (word_of_int p) (word_of_int ((p + 1) mod 16))) = 1
     \<and> sint (gray_diff (word_of_int p) (word_of_int ((p - 1) mod 16))) = - 1"
proof -
  assume "0 \<le> p" "p \<le> 15"
  then have "p mod 16 = p" by simp
  then show ?thesis
    using gray_diff_cw [of p] gray_diff_ccw [of p] by simp
qed

theorem gray_diff_adjacent_witness:
  "sint (gray_diff 15 0) = 1 \<and> sint (gray_diff 15 14) = - 1
   \<and> sint (gray_diff 0 1) = 1 \<and> sint (gray_diff 0 15) = - 1"
  using gray_diff_adjacent [of 15] gray_diff_adjacent [of 0] by simp

text \<open>
  Claim C6. The classifier is antisymmetric on position indices in [0,15]:
  \<open>gray_diff a b\<close> is the negation of \<open>gray_diff b a\<close>; when the raw difference is 8 or -8
  both directions give 0.
\<close>

theorem gray_diff_antisymmetric:
  "0 \<le> sint a \<Longrightarrow> sint a \<le> 15 \<Longrightarrow> 0 \<le> sint b \<Longrightarrow> sint b \<le> 15 \<Longrightarrow>
     sint (gray_diff a b) = - sint (gray_diff b a)
     \<and> (\<bar>sint b - sint a\<bar> = 8 \<longrightarrow> gray_diff a b = 0 \<and> gray_diff b a = 0)"
proof -
  assume r: "0 \<le> sint a" "sint a \<le> 15" "0 \<le> sint b" "sint b \<le> 15"
  have ab: "sint (gray_diff a b) = classify_spec (sint a) (sint b)"
    using r by (rule gray_diff_refines)
  have ba: "sint (gray_diff b a) = classify_spec (sint b) (sint a)"
    using r by (intro gray_diff_refines)
  have anti: "sint (gray_diff a b) = - sint (gray_diff b a)"
    using classify_spec_antisym [of "sint a" "sint b"] by (simp only: ab ba)
  have half: "gray_diff a b = 0 \<and> gray_diff b a = 0" if "\<bar>sint b - sint a\<bar> = 8"
  proof -
    have "classify_spec (sint a) (sint b) = 0" "classify_spec (sint b) (sint a) = 0"
      using that by (auto simp: classify_spec_def Let_def)
    then have "sint (gray_diff a b) = sint (0 :: schar)" "sint (gray_diff b a) = sint (0 :: schar)"
      by (simp_all add: ab ba)
    then show ?thesis
      by (simp only: schar_eq_iff_sint [symmetric])
  qed
  show ?thesis
    using anti half by blast
qed

theorem gray_diff_antisymmetric_witness:
  "sint (gray_diff 2 7) = - sint (gray_diff 7 2) \<and> sint (gray_diff 2 7) = 5
   \<and> gray_diff 4 12 = 0 \<and> gray_diff 12 4 = 0"
proof -
  have "sint (gray_diff 2 7) = 5"
    by (simp add: gray_diff_def)
  then show ?thesis
    using gray_diff_antisymmetric [of 2 7] gray_diff_antisymmetric [of 4 12] by simp
qed

text \<open>
  Claim C7. A full revolution of 16 consecutive single-detent moves, started at any
  position \<open>p\<close> of the ring, gives 16 classifications that are all +1 in the increasing
  direction and all -1 in the decreasing direction; none is 0.
\<close>

theorem gray_diff_full_revolution:
  "map (\<lambda>k. sint (gray_diff (word_of_int ((p + k) mod 16)) (word_of_int ((p + k + 1) mod 16))))
       [0..15] = replicate 16 1
   \<and> map (\<lambda>k. sint (gray_diff (word_of_int ((p - k) mod 16)) (word_of_int ((p - k - 1) mod 16))))
       [0..15] = replicate 16 (- 1)"
proof -
  have len: "length [0..15::int] = 16"
    by simp
  have "map (\<lambda>k. sint (gray_diff (word_of_int ((p + k) mod 16))
          (word_of_int ((p + k + 1) mod 16)))) [0..15] = map (\<lambda>k. 1) [0..15]"
    by (simp only: gray_diff_cw)
  moreover have "map (\<lambda>k. sint (gray_diff (word_of_int ((p - k) mod 16))
          (word_of_int ((p - k - 1) mod 16)))) [0..15] = map (\<lambda>k. - 1) [0..15]"
    by (simp only: gray_diff_ccw)
  ultimately show ?thesis
    by (simp only: map_replicate_const len)
qed

section \<open>The lookup table and the sampler\<close>

lemma raw_code_less: "unat (raw_code pins) < 16"
  by (cases "gpio_get pins ENC1"; cases "gpio_get pins ENC2"; cases "gpio_get pins ENC3";
      cases "gpio_get pins ENC4") (simp_all add: raw_code_def)

lemma gray_length: "length gray = 16"
  by (simp add: gray_def)

lemma gray_distinct: "distinct gray"
  by (simp add: gray_def)

lemma gray_set: "set gray = {0, 1, 2, 3, 4, 5, 6, 7, 8, 9, 10, 11, 12, 13, 14, 15}"
  by (auto simp: gray_def)

lemma upt16: "{0..<16::nat} = {0, 1, 2, 3, 4, 5, 6, 7, 8, 9, 10, 11, 12, 13, 14, 15}"
  by auto arith

lemma gray_unat_set: "unat ` set gray = {0..<16}"
  by (simp add: gray_set upt16)


lemma gray_bij: "bij_betw (\<lambda>i. unat (gray ! i)) {0..<16} {0..<16}"
proof -
  have "bij_betw ((!) gray) {0..<16} (set gray)"
    using gray_distinct gray_length by (intro bij_betw_nth) auto
  moreover have "bij_betw unat (set gray) {0..<16}"
    by (simp add: bij_betw_def inj_on_def gray_unat_set word_unat_eq_iff)
  ultimately have "bij_betw (unat \<circ> (!) gray) {0..<16} {0..<16}"
    by (rule bij_betw_trans)
  then show ?thesis by (simp add: comp_def)
qed

lemma read_gray_range: "0 \<le> sint (read_gray pins) \<and> sint (read_gray pins) \<le> 15"
proof -
  have "read_gray pins \<in> set gray"
    unfolding read_gray_def using raw_code_less [of pins] by (simp add: gray_length)
  then show ?thesis
    unfolding gray_set by auto
qed


lemma raw_code_inj:
  "raw_code p = raw_code q \<longleftrightarrow>
     gpio_get p ENC1 = gpio_get q ENC1 \<and> gpio_get p ENC2 = gpio_get q ENC2
     \<and> gpio_get p ENC3 = gpio_get q ENC3 \<and> gpio_get p ENC4 = gpio_get q ENC4"
  by (cases "gpio_get p ENC1"; cases "gpio_get p ENC2"; cases "gpio_get p ENC3";
      cases "gpio_get p ENC4"; cases "gpio_get q ENC1"; cases "gpio_get q ENC2";
      cases "gpio_get q ENC3"; cases "gpio_get q ENC4") (simp_all add: raw_code_def)

lemma read_gray_inj: "read_gray p = read_gray q \<longleftrightarrow> raw_code p = raw_code q"
proof
  assume "read_gray p = read_gray q"
  then have "unat (raw_code p) = unat (raw_code q)"
    unfolding read_gray_def
    using raw_code_less [of p] raw_code_less [of q] gray_distinct
    by (simp add: nth_eq_iff_index_eq gray_length)
  then show "raw_code p = raw_code q" by (simp add: word_unat_eq_iff)
qed (simp add: read_gray_def)

text \<open>
  Claim C10. The table \<open>gray\<close> has 16 entries that are pairwise distinct and are exactly the
  values 0..15, so reading it is a bijection from the raw codes 0..15 to the position
  indices 0..15. The raw code built from the four pins always indexes inside the table,
  the sampled position is always in [0,15], and two pin patterns give the same position
  exactly when the four pins agree.
\<close>

theorem gray_table_permutation:
  "length gray = 16 \<and> distinct gray \<and> unat ` set gray = {0..<16}
   \<and> bij_betw (\<lambda>i. unat (gray ! i)) {0..<16} {0..<16}
   \<and> unat (raw_code pins) < length gray
   \<and> 0 \<le> sint (read_gray pins) \<and> sint (read_gray pins) \<le> 15
   \<and> (read_gray pins = read_gray pins' \<longleftrightarrow>
        gpio_get pins ENC1 = gpio_get pins' ENC1 \<and> gpio_get pins ENC2 = gpio_get pins' ENC2
        \<and> gpio_get pins ENC3 = gpio_get pins' ENC3 \<and> gpio_get pins ENC4 = gpio_get pins' ENC4)"
  using raw_code_less [of pins] read_gray_range [of pins]
  by (simp only: gray_length gray_distinct gray_unat_set gray_bij read_gray_inj raw_code_inj)

section \<open>The device callbacks\<close>

lemma tud_callback_frame:
  "tud_callback b s = s\<lparr>blink_interval_ms := blink_interval_ms (tud_callback b s)\<rparr>"
  by (cases b)
    (simp_all add: tud_mount_cb_def tud_umount_cb_def tud_suspend_cb_def tud_resume_cb_def)

lemma tud_task_frame:
  "tud_task bs s = s\<lparr>blink_interval_ms := blink_interval_ms (tud_task bs s)\<rparr>"
proof (induction bs arbitrary: s)
  case Nil
  show ?case by simp
next
  case (Cons b bs)
  have "tud_task (b # bs) s = tud_task bs (tud_callback b s)" by simp
  also have "\<dots> = (tud_callback b s)\<lparr>blink_interval_ms := blink_interval_ms (tud_task (b # bs) s)\<rparr>"
    using Cons.IH [of "tud_callback b s"] by simp
  also have "\<dots> = s\<lparr>blink_interval_ms := blink_interval_ms (tud_task (b # bs) s)\<rparr>"
    by (subst tud_callback_frame) simp
  finally show ?case .
qed

lemma tud_task_fields:
  "prev (tud_task bs s) = prev s" "curr (tud_task bs s) = curr s" "diff (tud_task bs s) = diff s"
  "clear_flag (tud_task bs s) = clear_flag s" "start_ms (tud_task bs s) = start_ms s"
  by (subst tud_task_frame, simp)+

lemma tud_task_decoder: "decoder_state (tud_task bs s) = decoder_state s"
  by (simp add: decoder_state_def tud_task_fields)

lemma ready_tick_tud_task: "ready_tick e (tud_task bs s) = ready_tick e s"
  by (simp add: ready_tick_def is_tick_def tud_task_fields)


text \<open>
  Claim C9. Each of the four callbacks \<open>tud_mount_cb\<close>, \<open>tud_umount_cb\<close>,
  \<open>tud_suspend_cb\<close> and \<open>tud_resume_cb\<close> changes nothing but \<open>blink_interval_ms\<close>; the
  step-decoder state (previous position, current position, delta, pending-release flag) is
  the same before and after.
\<close>

theorem callbacks_keep_decoder_state:
  "decoder_state (tud_mount_cb s) = decoder_state s
   \<and> decoder_state (tud_umount_cb s) = decoder_state s
   \<and> decoder_state (tud_suspend_cb en s) = decoder_state s
   \<and> decoder_state (tud_resume_cb s) = decoder_state s
   \<and> tud_mount_cb s = s\<lparr>blink_interval_ms := blink_interval_ms (tud_mount_cb s)\<rparr>
   \<and> tud_umount_cb s = s\<lparr>blink_interval_ms := blink_interval_ms (tud_umount_cb s)\<rparr>
   \<and> tud_suspend_cb en s = s\<lparr>blink_interval_ms := blink_interval_ms (tud_suspend_cb en s)\<rparr>
   \<and> tud_resume_cb s = s\<lparr>blink_interval_ms := blink_interval_ms (tud_resume_cb s)\<rparr>"
  by (simp add: decoder_state_def tud_mount_cb_def tud_umount_cb_def tud_suspend_cb_def
      tud_resume_cb_def)

section \<open>One call of \<open>hid_task\<close>\<close>

lemma is_tick_iff: "is_tick e s \<longleftrightarrow> \<not> board_millis e - start_ms s < interval_ms"
  by (simp add: is_tick_def not_less)

lemma hid_task_not_ready:
  assumes "\<not> ready_tick e s"
  shows "keyboard_reports (snd (hid_task k e s)) = []"
    and "decoder_state (fst (hid_task k e s)) = decoder_state s"
  using assms
  by (auto simp add: hid_task_def ready_tick_def is_tick_iff Let_def keyboard_reports_def
      decoder_state_def)

lemma hid_task_release:
  assumes "ready_tick e s" "clear_flag s"
  shows "keyboard_reports (snd (hid_task k e s)) = [release k]"
    and "fst (hid_task k e s) = s\<lparr>start_ms := start_ms s + interval_ms, clear_flag := False\<rparr>"
  using assms
  by (simp_all add: hid_task_def ready_tick_def is_tick_iff Let_def keyboard_reports_def
      release_def split: if_splits)

lemma hid_task_sample:
  assumes "ready_tick e s" "\<not> clear_flag s"
  shows "keyboard_reports (snd (hid_task k e s)) =
           (if sint (gray_diff (prev s) (read_gray (gpio_in e))) > 0
            then [press k (HID_KEY_BACKSLASH k)]
            else if sint (gray_diff (prev s) (read_gray (gpio_in e))) < 0
            then [press k (HID_KEY_BRACKET_RIGHT k)]
            else [])"
    and "decoder_state (fst (hid_task k e s)) =
           (read_gray (gpio_in e), read_gray (gpio_in e),
            gray_diff (prev s) (read_gray (gpio_in e)),
            gray_diff (prev s) (read_gray (gpio_in e)) \<noteq> 0)"
  using assms signed_eq_0_iff [of "gray_diff (prev s) (read_gray (gpio_in e))", where ?'a = int]
  by (auto simp add: hid_task_def ready_tick_def is_tick_iff Let_def keyboard_reports_def
      press_def decoder_state_def split: if_splits)

text \<open>Unfolding sets for evaluating the model at concrete inputs.\<close>

lemmas sample_defs =
  read_gray_def raw_code_def gpio_get_def gray_def ENC1_def ENC2_def ENC3_def ENC4_def

lemmas tick_defs = ready_tick_def is_tick_def interval_ms_def

text \<open>
  Claim C1, as the code has it. On every tick in which the transport is ready and the
  pending-release flag is set, \<open>hid_task\<close> sends exactly the all-keys-released report and
  clears the flag (back to IDLE). It takes no encoder sample on that tick: the previous
  position, the current position and the delta keep the values they had.
\<close>

theorem release_tick:
  "ready_tick e s \<Longrightarrow> clear_flag s \<Longrightarrow>
     keyboard_reports (snd (hid_task k e s)) = [release k]
     \<and> clear_flag (fst (hid_task k e s)) = False
     \<and> prev (fst (hid_task k e s)) = prev s
     \<and> curr (fst (hid_task k e s)) = curr s
     \<and> diff (fst (hid_task k e s)) = diff s"
  by (simp add: hid_task_release)

theorem release_tick_witness:
  "keyboard_reports (snd (hid_task \<lparr>REPORT_ID_KEYBOARD = 1, HID_KEY_BACKSLASH = 49, HID_KEY_BRACKET_RIGHT = 48\<rparr>
       \<lparr>board_millis = 20, tud_suspended = False, tud_hid_ready = True, gpio_in = 4\<rparr>
       \<lparr>blink_interval_ms = 250, prev = 11, curr = 11, diff = 1, clear_flag = True, start_ms = 10\<rparr>)) = [KeyboardReport 1 0 None]
   \<and> clear_flag (fst (hid_task \<lparr>REPORT_ID_KEYBOARD = 1, HID_KEY_BACKSLASH = 49, HID_KEY_BRACKET_RIGHT = 48\<rparr>
       \<lparr>board_millis = 20, tud_suspended = False, tud_hid_ready = True, gpio_in = 4\<rparr>
       \<lparr>blink_interval_ms = 250, prev = 11, curr = 11, diff = 1, clear_flag = True, start_ms = 10\<rparr>)) = False
   \<and> prev (fst (hid_task \<lparr>REPORT_ID_KEYBOARD = 1, HID_KEY_BACKSLASH = 49, HID_KEY_BRACKET_RIGHT = 48\<rparr>
       \<lparr>board_millis = 20, tud_suspended = False, tud_hid_ready = True, gpio_in = 4\<rparr>
       \<lparr>blink_interval_ms = 250, prev = 11, curr = 11, diff = 1, clear_flag = True, start_ms = 10\<rparr>)) = 11"
proof -
  have r: "ready_tick \<lparr>board_millis = 20, tud_suspended = False, tud_hid_ready = True, gpio_in = 4\<rparr>
     \<lparr>blink_interval_ms = 250, prev = 11, curr = 11, diff = 1, clear_flag = True, start_ms = 10\<rparr>"
    by (simp add: tick_defs)
  have f: "clear_flag \<lparr>blink_interval_ms = 250, prev = 11, curr = 11, diff = 1, clear_flag = True, start_ms = 10\<rparr>"
    by simp
  show ?thesis
    using release_tick [OF r f, of "\<lparr>REPORT_ID_KEYBOARD = 1, HID_KEY_BACKSLASH = 49, HID_KEY_BRACKET_RIGHT = 48\<rparr>"]
    by (simp add: release_def)
qed

text \<open>
  The previous position is not refreshed on the release tick. Startup with the encoder at
  raw code 0 (position 10) and a first ready tick with the encoder at raw code 1
  (position 11) give the state with \<open>prev = 11\<close>, \<open>curr = 11\<close>, \<open>diff = 1\<close> and the flag
  set. On the next ready tick the encoder stands at raw code 2 (position 9); after that
  tick the flag is clear, and \<open>prev\<close> and \<open>curr\<close> are still 11.
\<close>

theorem release_tick_refresh_counterexample:
  "fst (hid_task \<lparr>REPORT_ID_KEYBOARD = 1, HID_KEY_BACKSLASH = 49, HID_KEY_BRACKET_RIGHT = 48\<rparr>
       \<lparr>board_millis = 10, tud_suspended = False, tud_hid_ready = True, gpio_in = 32\<rparr> (main_init 0))
     = \<lparr>blink_interval_ms = 250, prev = 11, curr = 11, diff = 1, clear_flag = True, start_ms = 10\<rparr>
   \<and> ready_tick \<lparr>board_millis = 20, tud_suspended = False, tud_hid_ready = True, gpio_in = 4\<rparr>
       \<lparr>blink_interval_ms = 250, prev = 11, curr = 11, diff = 1, clear_flag = True, start_ms = 10\<rparr>
   \<and> clear_flag \<lparr>blink_interval_ms = 250, prev = 11, curr = 11, diff = 1, clear_flag = True, start_ms = 10\<rparr>
   \<and> read_gray (gpio_in \<lparr>board_millis = 20, tud_suspended = False, tud_hid_ready = True, gpio_in = 4\<rparr>) = 9
   \<and> prev (fst (hid_task \<lparr>REPORT_ID_KEYBOARD = 1, HID_KEY_BACKSLASH = 49, HID_KEY_BRACKET_RIGHT = 48\<rparr>
       \<lparr>board_millis = 20, tud_suspended = False, tud_hid_ready = True, gpio_in = 4\<rparr>
       \<lparr>blink_interval_ms = 250, prev = 11, curr = 11, diff = 1, clear_flag = True, start_ms = 10\<rparr>)) = 11
   \<and> curr (fst (hid_task \<lparr>REPORT_ID_KEYBOARD = 1, HID_KEY_BACKSLASH = 49, HID_KEY_BRACKET_RIGHT = 48\<rparr>
       \<lparr>board_millis = 20, tud_suspended = False, tud_hid_ready = True, gpio_in = 4\<rparr>
       \<lparr>blink_interval_ms = 250, prev = 11, curr = 11, diff = 1, clear_flag = True, start_ms = 10\<rparr>)) = 11
   \<and> prev (fst (hid_task \<lparr>REPORT_ID_KEYBOARD = 1, HID_KEY_BACKSLASH = 49, HID_KEY_BRACKET_RIGHT = 48\<rparr>
       \<lparr>board_millis = 20, tud_suspended = False, tud_hid_ready = True, gpio_in = 4\<rparr>
       \<lparr>blink_interval_ms = 250, prev = 11, curr = 11, diff = 1, clear_flag = True, start_ms = 10\<rparr>))
     \<noteq> read_gray (gpio_in \<lparr>board_millis = 20, tud_suspended = False, tud_hid_ready = True, gpio_in = 4\<rparr>)"
  by (simp add: tick_defs sample_defs hid_task_def main_init_def gray_diff_def
      BLINK_NOT_MOUNTED_def)

text \<open>
  Claim C5. On a transport-ready tick in IDLE, with the delta classified from the previous
  position and the fresh sample: a positive delta sends one press report carrying
  \<open>HID_KEY_BACKSLASH\<close> and sets the flag; a negative delta sends one press report carrying
  \<open>HID_KEY_BRACKET_RIGHT\<close> and sets the flag; a zero delta sends no report and leaves the
  flag clear. In all three cases the previous position becomes the fresh sample.
\<close>

theorem idle_tick_step:
  "ready_tick e s \<Longrightarrow> \<not> clear_flag s \<Longrightarrow>
     (keyboard_reports (snd (hid_task k e s)), clear_flag (fst (hid_task k e s))) =
       (if sint (gray_diff (prev s) (read_gray (gpio_in e))) > 0
        then ([press k (HID_KEY_BACKSLASH k)], True)
        else if sint (gray_diff (prev s) (read_gray (gpio_in e))) < 0
        then ([press k (HID_KEY_BRACKET_RIGHT k)], True)
        else ([], False))
     \<and> prev (fst (hid_task k e s)) = read_gray (gpio_in e)"
proof -
  assume t: "ready_tick e s" and i: "\<not> clear_flag s"
  let ?d = "gray_diff (prev s) (read_gray (gpio_in e))"
  have z: "?d = 0 \<longleftrightarrow> sint ?d = 0"
    by (simp add: signed_eq_0_iff)
  have d: "prev (fst (hid_task k e s)) = read_gray (gpio_in e)"
    "clear_flag (fst (hid_task k e s)) = (?d \<noteq> 0)"
    using hid_task_sample(2) [OF t i, of k] by (simp_all add: decoder_state_def)
  show ?thesis
    using hid_task_sample(1) [OF t i, of k] d z by auto
qed

theorem idle_tick_step_witness:
  "keyboard_reports (snd (hid_task \<lparr>REPORT_ID_KEYBOARD = 1, HID_KEY_BACKSLASH = 49, HID_KEY_BRACKET_RIGHT = 48\<rparr>
       \<lparr>board_millis = 10, tud_suspended = False, tud_hid_ready = True, gpio_in = 32\<rparr>
       \<lparr>blink_interval_ms = 250, prev = 10, curr = 0, diff = 0, clear_flag = False, start_ms = 0\<rparr>)) = [KeyboardReport 1 0 (Some [49, 0, 0, 0, 0, 0])]
   \<and> clear_flag (fst (hid_task \<lparr>REPORT_ID_KEYBOARD = 1, HID_KEY_BACKSLASH = 49, HID_KEY_BRACKET_RIGHT = 48\<rparr>
       \<lparr>board_millis = 10, tud_suspended = False, tud_hid_ready = True, gpio_in = 32\<rparr>
       \<lparr>blink_interval_ms = 250, prev = 10, curr = 0, diff = 0, clear_flag = False, start_ms = 0\<rparr>))
   \<and> prev (fst (hid_task \<lparr>REPORT_ID_KEYBOARD = 1, HID_KEY_BACKSLASH = 49, HID_KEY_BRACKET_RIGHT = 48\<rparr>
       \<lparr>board_millis = 10, tud_suspended = False, tud_hid_ready = True, gpio_in = 32\<rparr>
       \<lparr>blink_interval_ms = 250, prev = 10, curr = 0, diff = 0, clear_flag = False, start_ms = 0\<rparr>)) = 11
   \<and> keyboard_reports (snd (hid_task \<lparr>REPORT_ID_KEYBOARD = 1, HID_KEY_BACKSLASH = 49, HID_KEY_BRACKET_RIGHT = 48\<rparr>
       \<lparr>board_millis = 10, tud_suspended = True, tud_hid_ready = True, gpio_in = 36\<rparr>
       \<lparr>blink_interval_ms = 250, prev = 10, curr = 0, diff = 0, clear_flag = False, start_ms = 0\<rparr>)) = [KeyboardReport 1 0 (Some [48, 0, 0, 0, 0, 0])]
   \<and> clear_flag (fst (hid_task \<lparr>REPORT_ID_KEYBOARD = 1, HID_KEY_BACKSLASH = 49, HID_KEY_BRACKET_RIGHT = 48\<rparr>
       \<lparr>board_millis = 10, tud_suspended = True, tud_hid_ready = True, gpio_in = 36\<rparr>
       \<lparr>blink_interval_ms = 250, prev = 10, curr = 0, diff = 0, clear_flag = False, start_ms = 0\<rparr>))
   \<and> prev (fst (hid_task \<lparr>REPORT_ID_KEYBOARD = 1, HID_KEY_BACKSLASH = 49, HID_KEY_BRACKET_RIGHT = 48\<rparr>
       \<lparr>board_millis = 10, tud_suspended = True, tud_hid_ready = True, gpio_in = 36\<rparr>
       \<lparr>blink_interval_ms = 250, prev = 10, curr = 0, diff = 0, clear_flag = False, start_ms = 0\<rparr>)) = 8
   \<and> keyboard_reports (snd (hid_task \<lparr>REPORT_ID_KEYBOARD = 1, HID_KEY_BACKSLASH = 49, HID_KEY_BRACKET_RIGHT = 48\<rparr>
       \<lparr>board_millis = 10, tud_suspended = False, tud_hid_ready = True, gpio_in = 0\<rparr>
       \<lparr>blink_interval_ms = 250, prev = 10, curr = 0, diff = 0, clear_flag = False, start_ms = 0\<rparr>)) = []
   \<and> \<not> clear_flag (fst (hid_task \<lparr>REPORT_ID_KEYBOARD = 1, HID_KEY_BACKSLASH = 49, HID_KEY_BRACKET_RIGHT = 48\<rparr>
       \<lparr>board_millis = 10, tud_suspended = False, tud_hid_ready = True, gpio_in = 0\<rparr>
       \<lparr>blink_interval_ms = 250, prev = 10, curr = 0, diff = 0, clear_flag = False, start_ms = 0\<rparr>))
   \<and> prev (fst (hid_task \<lparr>REPORT_ID_KEYBOARD = 1, HID_KEY_BACKSLASH = 49, HID_KEY_BRACKET_RIGHT = 48\<rparr>
       \<lparr>board_millis = 10, tud_suspended = False, tud_hid_ready = True, gpio_in = 0\<rparr>
       \<lparr>blink_interval_ms = 250, prev = 10, curr = 0, diff = 0, clear_flag = False, start_ms = 0\<rparr>)) = 10"
proof -
  have i: "\<not> clear_flag \<lparr>blink_interval_ms = 250, prev = 10, curr = 0, diff = 0, clear_flag = False, start_ms = 0\<rparr>"
    by simp
  have a: "ready_tick \<lparr>board_millis = 10, tud_suspended = False, tud_hid_ready = True, gpio_in = 32\<rparr>
     \<lparr>blink_interval_ms = 250, prev = 10, curr = 0, diff = 0, clear_flag = False, start_ms = 0\<rparr>"
    by (simp add: tick_defs)
  have b: "ready_tick \<lparr>board_millis = 10, tud_suspended = True, tud_hid_ready = True, gpio_in = 36\<rparr>
     \<lparr>blink_interval_ms = 250, prev = 10, curr = 0, diff = 0, clear_flag = False, start_ms = 0\<rparr>"
    by (simp add: tick_defs)
  have c: "ready_tick \<lparr>board_millis = 10, tud_suspended = False, tud_hid_ready = True, gpio_in = 0\<rparr>
     \<lparr>blink_interval_ms = 250, prev = 10, curr = 0, diff = 0, clear_flag = False, start_ms = 0\<rparr>"
    by (simp add: tick_defs)
  show ?thesis
    using idle_tick_step [OF a i, of "\<lparr>REPORT_ID_KEYBOARD = 1, HID_KEY_BACKSLASH = 49, HID_KEY_BRACKET_RIGHT = 48\<rparr>"]
      idle_tick_step [OF b i, of "\<lparr>REPORT_ID_KEYBOARD = 1, HID_KEY_BACKSLASH = 49, HID_KEY_BRACKET_RIGHT = 48\<rparr>"]
      idle_tick_step [OF c i, of "\<lparr>REPORT_ID_KEYBOARD = 1, HID_KEY_BACKSLASH = 49, HID_KEY_BRACKET_RIGHT = 48\<rparr>"]
    by (simp add: sample_defs gray_diff_def press_def)
qed


section \<open>Runs of the main loop\<close>

lemma main_loop_append:
  "main_loop k (xs @ ys) s =
     (fst (main_loop k ys (fst (main_loop k xs s))),
      snd (main_loop k xs s) @ snd (main_loop k ys (fst (main_loop k xs s))))"
  by (induction xs arbitrary: s) (simp_all add: Let_def)

lemma keyboard_reports_append:
  "keyboard_reports (xs @ ys) = keyboard_reports xs @ keyboard_reports ys"
  by (simp add: keyboard_reports_def)

lemma quiet_run_main_loop:
  assumes "quiet_run k its s"
  shows "keyboard_reports (snd (main_loop k its s)) = []
         \<and> decoder_state (fst (main_loop k its s)) = decoder_state s"
  using assms
proof (induction its arbitrary: s)
  case Nil
  show ?case by (simp add: keyboard_reports_def)
next
  case (Cons it its)
  let ?s1 = "tud_task (fst it) s"
  let ?s2 = "fst (hid_task k (snd it) ?s1)"
  from Cons.prems have nr: "\<not> ready_tick (snd it) ?s1" and q: "quiet_run k its ?s2"
    by (simp_all split: if_splits)
  have step: "keyboard_reports (snd (hid_task k (snd it) ?s1)) = []"
    "decoder_state ?s2 = decoder_state s"
    using hid_task_not_ready [OF nr, of k] by (simp_all add: tud_task_decoder)
  from Cons.IH [OF q] step show ?case
    by (simp add: Let_def keyboard_reports_append)
qed

lemma never_ready_quiet:
  assumes "\<forall>it\<in>set its. \<not> tud_hid_ready (snd it)"
  shows "quiet_run k its s"
  using assms by (induction its arbitrary: s) (simp_all add: ready_tick_def)

lemma main_init_decoder: "decoder_state (main_init pins) = (read_gray pins, 0, 0, False)"
  by (simp add: main_init_def decoder_state_def)


text \<open>
  Claim C8. If \<open>tud_hid_ready()\<close> is false in every iteration, then from startup and over
  any number of iterations no keyboard report is sent, the flag stays clear (IDLE), the
  previous position stays the startup sample, and \<open>curr\<close> and \<open>diff\<close> are never written.
\<close>

theorem transport_never_ready:
  "\<forall>it\<in>set its. \<not> tud_hid_ready (snd it) \<Longrightarrow>
     keyboard_reports (snd (main_loop k its (main_init pins))) = []
     \<and> clear_flag (fst (main_loop k its (main_init pins))) = False
     \<and> prev (fst (main_loop k its (main_init pins))) = read_gray pins
     \<and> curr (fst (main_loop k its (main_init pins))) = 0
     \<and> diff (fst (main_loop k its (main_init pins))) = 0"
proof -
  assume "\<forall>it\<in>set its. \<not> tud_hid_ready (snd it)"
  then have "quiet_run k its (main_init pins)"
    by (rule never_ready_quiet)
  then have "keyboard_reports (snd (main_loop k its (main_init pins))) = []"
    "decoder_state (fst (main_loop k its (main_init pins))) = (read_gray pins, 0, 0, False)"
    using quiet_run_main_loop [of k its "main_init pins"] by (simp_all add: main_init_decoder)
  then show ?thesis
    by (simp add: decoder_state_def)
qed

theorem transport_never_ready_witness:
  "keyboard_reports (snd (main_loop \<lparr>REPORT_ID_KEYBOARD = 1, HID_KEY_BACKSLASH = 49, HID_KEY_BRACKET_RIGHT = 48\<rparr>
     [([Mounted], \<lparr>board_millis = 10, tud_suspended = False, tud_hid_ready = False, gpio_in = 32\<rparr>),
      ([Suspended True], \<lparr>board_millis = 20, tud_suspended = True, tud_hid_ready = False, gpio_in = 4\<rparr>)]
     (main_init 0))) = []
   \<and> clear_flag (fst (main_loop \<lparr>REPORT_ID_KEYBOARD = 1, HID_KEY_BACKSLASH = 49, HID_KEY_BRACKET_RIGHT = 48\<rparr>
     [([Mounted], \<lparr>board_millis = 10, tud_suspended = False, tud_hid_ready = False, gpio_in = 32\<rparr>),
      ([Suspended True], \<lparr>board_millis = 20, tud_suspended = True, tud_hid_ready = False, gpio_in = 4\<rparr>)]
     (main_init 0))) = False
   \<and> prev (fst (main_loop \<lparr>REPORT_ID_KEYBOARD = 1, HID_KEY_BACKSLASH = 49, HID_KEY_BRACKET_RIGHT = 48\<rparr>
     [([Mounted], \<lparr>board_millis = 10, tud_suspended = False, tud_hid_ready = False, gpio_in = 32\<rparr>),
      ([Suspended True], \<lparr>board_millis = 20, tud_suspended = True, tud_hid_ready = False, gpio_in = 4\<rparr>)]
     (main_init 0))) = 10"
proof -
  have n: "\<forall>it\<in>set [([Mounted], \<lparr>board_millis = 10, tud_suspended = False, tud_hid_ready = False, gpio_in = 32\<rparr>),
      ([Suspended True], \<lparr>board_millis = 20, tud_suspended = True, tud_hid_ready = False, gpio_in = 4\<rparr>)]. \<not> tud_hid_ready (snd it)"
    by simp
  have g: "read_gray 0 = 10"
    by (simp add: sample_defs)
  show ?thesis
    using transport_never_ready [OF n, of "\<lparr>REPORT_ID_KEYBOARD = 1, HID_KEY_BACKSLASH = 49, HID_KEY_BRACKET_RIGHT = 48\<rparr>" 0]
    by (simp only: g)
qed

text \<open>
  Claim C2. From IDLE, a transport-ready tick that detects a step (nonzero delta) sends
  exactly one press report. Through any following iterations that are not transport-ready
  ticks no further report is sent and the decoder state does not move (no new step is
  detected), and the next transport-ready tick sends exactly one all-keys-released report
  and returns to IDLE, again without detecting a step.
\<close>

theorem step_press_then_release:
  assumes idle: "\<not> clear_flag s"
    and tick1: "ready_tick e1 (tud_task b1 s)"
    and step: "gray_diff (prev s) (read_gray (gpio_in e1)) \<noteq> 0"
    and owed: "quiet_run k mid (fst (hid_task k e1 (tud_task b1 s)))"
    and tick2: "ready_tick e2 (tud_task b2 (fst (main_loop k ((b1, e1) # mid) s)))"
  shows "keyboard_reports (snd (main_loop k ((b1, e1) # mid) s)) =
           [press k (if sint (gray_diff (prev s) (read_gray (gpio_in e1))) > 0
                     then HID_KEY_BACKSLASH k else HID_KEY_BRACKET_RIGHT k)]
         \<and> decoder_state (fst (main_loop k ((b1, e1) # mid) s)) =
             (read_gray (gpio_in e1), read_gray (gpio_in e1),
              gray_diff (prev s) (read_gray (gpio_in e1)), True)
         \<and> keyboard_reports (snd (main_loop k ((b1, e1) # mid @ [(b2, e2)]) s)) =
             [press k (if sint (gray_diff (prev s) (read_gray (gpio_in e1))) > 0
                       then HID_KEY_BACKSLASH k else HID_KEY_BRACKET_RIGHT k),
              release k]
         \<and> decoder_state (fst (main_loop k ((b1, e1) # mid @ [(b2, e2)]) s)) =
             (read_gray (gpio_in e1), read_gray (gpio_in e1),
              gray_diff (prev s) (read_gray (gpio_in e1)), False)"
proof -
  let ?c = "read_gray (gpio_in e1)"
  let ?d = "gray_diff (prev s) ?c"
  let ?key = "if sint ?d > 0 then HID_KEY_BACKSLASH k else HID_KEY_BRACKET_RIGHT k"
  let ?s0 = "tud_task b1 s"
  let ?s1 = "fst (hid_task k e1 ?s0)"
  let ?pre = "main_loop k ((b1, e1) # mid) s"
  have idle0: "\<not> clear_flag ?s0" and prev0: "prev ?s0 = prev s"
    using idle by (simp_all add: tud_task_fields)
  have nz: "sint ?d \<noteq> 0"
    using step by (simp add: signed_eq_0_iff)
  have p1: "keyboard_reports (snd (hid_task k e1 ?s0)) = [press k ?key]"
    using hid_task_sample(1) [OF tick1 idle0, of k] nz by (simp add: prev0)
  have d1: "decoder_state ?s1 = (?c, ?c, ?d, True)"
    using hid_task_sample(2) [OF tick1 idle0, of k] step by (simp add: prev0)
  have q: "keyboard_reports (snd (main_loop k mid ?s1)) = []"
    "decoder_state (fst (main_loop k mid ?s1)) = (?c, ?c, ?d, True)"
    using quiet_run_main_loop [OF owed] d1 by simp_all
  have pre_r: "keyboard_reports (snd ?pre) = [press k ?key]"
    using p1 q(1) by (simp add: Let_def keyboard_reports_append)
  have pre_s: "fst ?pre = fst (main_loop k mid ?s1)"
    by (simp add: Let_def)
  have pre_d: "decoder_state (fst ?pre) = (?c, ?c, ?d, True)"
    using q(2) by (simp only: pre_s)
  let ?s2 = "tud_task b2 (fst ?pre)"
  have d2: "decoder_state ?s2 = (?c, ?c, ?d, True)"
    using pre_d by (simp only: tud_task_decoder)
  then have flag2: "clear_flag ?s2"
    by (simp add: decoder_state_def)
  have r2: "keyboard_reports (snd (hid_task k e2 ?s2)) = [release k]"
    using hid_task_release(1) [OF tick2 flag2] .
  have "fst (hid_task k e2 ?s2) =
      ?s2\<lparr>start_ms := start_ms ?s2 + interval_ms, clear_flag := False\<rparr>"
    using hid_task_release(2) [OF tick2 flag2] .
  then have d3: "decoder_state (fst (hid_task k e2 ?s2)) = (?c, ?c, ?d, False)"
    using d2 by (simp add: decoder_state_def)
  have full: "main_loop k ((b1, e1) # mid @ [(b2, e2)]) s =
      (fst (hid_task k e2 ?s2), snd ?pre @ snd (hid_task k e2 ?s2))"
    using main_loop_append [of k "(b1, e1) # mid" "[(b2, e2)]" s] by (simp add: Let_def)
  have full_r: "keyboard_reports (snd (main_loop k ((b1, e1) # mid @ [(b2, e2)]) s)) =
      [press k ?key, release k]"
    using pre_r r2 by (simp only: full snd_conv keyboard_reports_append) simp
  have full_d: "decoder_state (fst (main_loop k ((b1, e1) # mid @ [(b2, e2)]) s)) =
      (?c, ?c, ?d, False)"
    using d3 by (simp only: full fst_conv)
  show ?thesis
    using pre_r pre_d full_r full_d by blast
qed


theorem step_press_then_release_witness:
  "keyboard_reports (snd (main_loop \<lparr>REPORT_ID_KEYBOARD = 1, HID_KEY_BACKSLASH = 49, HID_KEY_BRACKET_RIGHT = 48\<rparr>
     [([Mounted], \<lparr>board_millis = 10, tud_suspended = False, tud_hid_ready = True, gpio_in = 32\<rparr>),
      ([], \<lparr>board_millis = 20, tud_suspended = False, tud_hid_ready = False, gpio_in = 4\<rparr>),
      ([Suspended True], \<lparr>board_millis = 25, tud_suspended = True, tud_hid_ready = True, gpio_in = 4\<rparr>),
      ([], \<lparr>board_millis = 30, tud_suspended = False, tud_hid_ready = True, gpio_in = 4\<rparr>)]
     (main_init 0)))
     = [KeyboardReport 1 0 (Some [49, 0, 0, 0, 0, 0]), KeyboardReport 1 0 None]
   \<and> decoder_state (fst (main_loop \<lparr>REPORT_ID_KEYBOARD = 1, HID_KEY_BACKSLASH = 49, HID_KEY_BRACKET_RIGHT = 48\<rparr>
     [([Mounted], \<lparr>board_millis = 10, tud_suspended = False, tud_hid_ready = True, gpio_in = 32\<rparr>),
      ([], \<lparr>board_millis = 20, tud_suspended = False, tud_hid_ready = False, gpio_in = 4\<rparr>),
      ([Suspended True], \<lparr>board_millis = 25, tud_suspended = True, tud_hid_ready = True, gpio_in = 4\<rparr>),
      ([], \<lparr>board_millis = 30, tud_suspended = False, tud_hid_ready = True, gpio_in = 4\<rparr>)]
     (main_init 0))) = (11, 11, 1, False)"
proof -
  have idle: "\<not> clear_flag (main_init 0)"
    by (simp add: main_init_def)
  have tick1: "ready_tick \<lparr>board_millis = 10, tud_suspended = False, tud_hid_ready = True, gpio_in = 32\<rparr>
      (tud_task [Mounted] (main_init 0))"
    by (simp add: tick_defs main_init_def tud_mount_cb_def)
  have step: "gray_diff (prev (main_init 0))
      (read_gray (gpio_in \<lparr>board_millis = 10, tud_suspended = False, tud_hid_ready = True, gpio_in = 32\<rparr>)) \<noteq> 0"
    by (simp add: main_init_def sample_defs gray_diff_def)
  have owed: "quiet_run \<lparr>REPORT_ID_KEYBOARD = 1, HID_KEY_BACKSLASH = 49, HID_KEY_BRACKET_RIGHT = 48\<rparr>
      [([], \<lparr>board_millis = 20, tud_suspended = False, tud_hid_ready = False, gpio_in = 4\<rparr>),
       ([Suspended True], \<lparr>board_millis = 25, tud_suspended = True, tud_hid_ready = True, gpio_in = 4\<rparr>)]
      (fst (hid_task \<lparr>REPORT_ID_KEYBOARD = 1, HID_KEY_BACKSLASH = 49, HID_KEY_BRACKET_RIGHT = 48\<rparr>
        \<lparr>board_millis = 10, tud_suspended = False, tud_hid_ready = True, gpio_in = 32\<rparr>
        (tud_task [Mounted] (main_init 0))))"
    by (simp add: hid_task_def tick_defs main_init_def sample_defs gray_diff_def
        tud_mount_cb_def tud_suspend_cb_def)
  have tick2: "ready_tick \<lparr>board_millis = 30, tud_suspended = False, tud_hid_ready = True, gpio_in = 4\<rparr>
      (tud_task [] (fst (main_loop \<lparr>REPORT_ID_KEYBOARD = 1, HID_KEY_BACKSLASH = 49, HID_KEY_BRACKET_RIGHT = 48\<rparr>
        (([Mounted], \<lparr>board_millis = 10, tud_suspended = False, tud_hid_ready = True, gpio_in = 32\<rparr>) #
         [([], \<lparr>board_millis = 20, tud_suspended = False, tud_hid_ready = False, gpio_in = 4\<rparr>),
          ([Suspended True], \<lparr>board_millis = 25, tud_suspended = True, tud_hid_ready = True, gpio_in = 4\<rparr>)])
        (main_init 0))))"
    by (simp add: hid_task_def tick_defs main_init_def sample_defs gray_diff_def
        tud_mount_cb_def tud_suspend_cb_def)
  show ?thesis
    using step_press_then_release [OF idle tick1 step owed tick2]
    by (simp add: press_def release_def main_init_def sample_defs gray_diff_def)
qed

end
